theory Spec2Isabelle
  imports Complex_Main "HOL-Library.Multiset"
begin

section \<open>Data model\<close>

text \<open>
  PageWidth.ts: a page width is either \<open>AvailablePerLine lineWidth ribbonFraction\<close> or
  \<open>Unbounded\<close>. TypeScript's \<open>number\<close> is read as \<open>int\<close> for columns, widths and
  indentations and as \<open>real\<close> for the ribbon fraction.
\<close>

datatype PageWidth = AvailablePerLine int real | Unbounded

text \<open>
  Doc.ts: the thirteen node kinds of a document. \<open>Char\<close> and \<open>Text\<close> both carry a
  TypeScript \<open>string\<close>; nothing in the constructors checks its length. The constructors
  \<open>Char\<close> and \<open>Union\<close> are named \<open>CharD\<close> and \<open>UnionD\<close> here.
\<close>

datatype 'a Doc =
    Fail
  | Empty
  | CharD string
  | Text string
  | Line
  | FlatAlt "'a Doc" "'a Doc"
  | Cat "'a Doc" "'a Doc"
  | Nest int "'a Doc"
  | UnionD "'a Doc" "'a Doc"
  | Column "int \<Rightarrow> 'a Doc"
  | WithPageWidth "PageWidth \<Rightarrow> 'a Doc"
  | Nesting "int \<Rightarrow> 'a Doc"
  | Annotated 'a "'a Doc"

text \<open>SimpleDocStream.ts: the laid out document, a chain of seven node kinds.\<close>

datatype 'a SimpleDocStream =
    SFail
  | SEmpty
  | SChar string "'a SimpleDocStream"
  | SText string "'a SimpleDocStream"
  | SLine int "'a SimpleDocStream"
  | SAnnPush 'a "'a SimpleDocStream"
  | SAnnPop "'a SimpleDocStream"

text \<open>Flatten.ts: the result of the flattening analysis.\<close>

datatype 'b FlattenResult = Flattened 'b | AlreadyFlat | NeverFlat

text \<open>
  Layout.ts: the work list of the layout engine. The constructors \<open>Nil\<close> and \<open>Cons\<close>
  are named \<open>NilP\<close> and \<open>ConsP\<close> here.
\<close>

datatype 'a LayoutPipeline =
    NilP
  | ConsP int "'a Doc" "'a LayoutPipeline"
  | UndoAnn "'a LayoutPipeline"

type_synonym 'a FittingPredicate = "int \<Rightarrow> int \<Rightarrow> int option \<Rightarrow> 'a SimpleDocStream \<Rightarrow> bool"

section \<open>Flatten.ts\<close>

text \<open>\<open>map\<close> of \<open>FlattenResult\<close>.\<close>

fun mapFR :: "('b \<Rightarrow> 'c) \<Rightarrow> 'b FlattenResult \<Rightarrow> 'c FlattenResult" where
  "mapFR f (Flattened a) = Flattened (f a)"
| "mapFR f AlreadyFlat = AlreadyFlat"
| "mapFR f NeverFlat = NeverFlat"

text \<open>\<open>flatten\<close>: \<open>flow(f, flatten)\<close> is \<open>flatten \<circ> f\<close>.\<close>

primrec flatten :: "'a Doc \<Rightarrow> 'a Doc" where
  "flatten Fail = Fail"
| "flatten Empty = Empty"
| "flatten (CharD c) = CharD c"
| "flatten (Text t) = Text t"
| "flatten Line = Fail"
| "flatten (FlatAlt x y) = flatten y"
| "flatten (Cat x y) = Cat (flatten x) (flatten y)"
| "flatten (Nest i x) = Nest i (flatten x)"
| "flatten (UnionD x y) = flatten x"
| "flatten (Column f) = Column (flatten \<circ> f)"
| "flatten (WithPageWidth f) = WithPageWidth (flatten \<circ> f)"
| "flatten (Nesting f) = Nesting (flatten \<circ> f)"
| "flatten (Annotated a x) = Annotated a (flatten x)"

text \<open>
  The \<open>Cat\<close> branch of \<open>changesUponFlattening\<close>, with the source's chain of tests on
  the two sub-results in the source's order.
\<close>

fun catFR :: "'a Doc \<Rightarrow> 'a Doc \<Rightarrow> 'a Doc FlattenResult \<Rightarrow> 'a Doc FlattenResult \<Rightarrow> 'a Doc FlattenResult" where
  "catFR x y NeverFlat b = NeverFlat"
| "catFR x y a NeverFlat = NeverFlat"
| "catFR x y (Flattened a) (Flattened b) = Flattened (Cat a b)"
| "catFR x y (Flattened a) AlreadyFlat = Flattened (Cat a y)"
| "catFR x y AlreadyFlat (Flattened b) = Flattened (Cat x b)"
| "catFR x y AlreadyFlat AlreadyFlat = AlreadyFlat"

primrec changesUponFlattening :: "'a Doc \<Rightarrow> 'a Doc FlattenResult" where
  "changesUponFlattening Empty = AlreadyFlat"
| "changesUponFlattening (CharD c) = AlreadyFlat"
| "changesUponFlattening (Text t) = AlreadyFlat"
| "changesUponFlattening Fail = AlreadyFlat"
| "changesUponFlattening Line = NeverFlat"
| "changesUponFlattening (FlatAlt x y) = Flattened (flatten y)"
| "changesUponFlattening (Cat x y) = catFR x y (changesUponFlattening x) (changesUponFlattening y)"
| "changesUponFlattening (Nest i a) = mapFR (\<lambda>b. Nest i b) (changesUponFlattening a)"
| "changesUponFlattening (UnionD x y) = Flattened x"
| "changesUponFlattening (Column f) = Flattened (Column (flatten \<circ> f))"
| "changesUponFlattening (WithPageWidth f) = Flattened (WithPageWidth (flatten \<circ> f))"
| "changesUponFlattening (Nesting f) = Flattened (Column (flatten \<circ> f))"
| "changesUponFlattening (Annotated a x) = mapFR (\<lambda>b. Annotated a b) (changesUponFlattening x)"

section \<open>Doc.ts: group\<close>

text \<open>
  \<open>group\<close> is named \<open>groupD\<close> here, and its local function \<open>group_\<close> is \<open>group_'\<close>.
\<close>

definition group_' :: "'a Doc \<Rightarrow> 'a Doc" where
  "group_' a = (case changesUponFlattening a of
      Flattened b \<Rightarrow> UnionD b a
    | AlreadyFlat \<Rightarrow> a
    | NeverFlat \<Rightarrow> a)"

definition groupD :: "'a Doc \<Rightarrow> 'a Doc" where
  "groupD doc = (case doc of
      Fail \<Rightarrow> group_' doc
    | Empty \<Rightarrow> group_' doc
    | CharD c \<Rightarrow> group_' doc
    | Text t \<Rightarrow> group_' doc
    | Line \<Rightarrow> group_' doc
    | FlatAlt a b \<Rightarrow> (case changesUponFlattening b of
          Flattened b' \<Rightarrow> UnionD b' a
        | AlreadyFlat \<Rightarrow> UnionD b a
        | NeverFlat \<Rightarrow> a)
    | Cat x y \<Rightarrow> group_' doc
    | Nest i x \<Rightarrow> group_' doc
    | UnionD x y \<Rightarrow> doc
    | Column f \<Rightarrow> group_' doc
    | WithPageWidth g \<Rightarrow> group_' doc
    | Nesting f \<Rightarrow> group_' doc
    | Annotated a x \<Rightarrow> group_' doc)"

section \<open>Doc.ts: the combinators behind list and tupled\<close>

definition lbracket :: "'a Doc" where "lbracket = CharD ''[''"
definition rbracket :: "'a Doc" where "rbracket = CharD '']''"
definition lparen :: "'a Doc" where "lparen = CharD ''(''"
definition rparen :: "'a Doc" where "rparen = CharD '')''"

definition lineBreak :: "'a Doc" where "lineBreak = FlatAlt Line Empty"

definition flatAlt :: "'a Doc \<Rightarrow> 'a Doc \<Rightarrow> 'a Doc" where
  "flatAlt x y = FlatAlt x y"

text \<open>
  \<open>concatWith f\<close> is \<open>RA.foldRight(() => empty, (init, last) => reduceRight(last, f)(init))\<close>:
  \<open>Empty\<close> on the empty array, otherwise a right fold of \<open>f\<close> over all but the last
  element, starting from the last.
\<close>

definition concatWith :: "('a Doc \<Rightarrow> 'a Doc \<Rightarrow> 'a Doc) \<Rightarrow> 'a Doc list \<Rightarrow> 'a Doc" where
  "concatWith f docs = (if docs = [] then Empty else foldr f (butlast docs) (last docs))"

definition appendWithLineBreak :: "'a Doc \<Rightarrow> 'a Doc \<Rightarrow> 'a Doc" where
  "appendWithLineBreak x y = Cat x (Cat lineBreak y)"

definition vcat :: "'a Doc list \<Rightarrow> 'a Doc" where
  "vcat = concatWith appendWithLineBreak"

definition cat :: "'a Doc list \<Rightarrow> 'a Doc" where
  "cat docs = groupD (vcat docs)"

text \<open>
  \<open>encloseSep\<close>: \<open>RA.zipWith\<close> stops at the shorter array, as \<open>zip\<close> does. The
  element \<open>docs[0]\<close> is read only when the array has exactly one element.
\<close>

definition encloseSep :: "'a Doc \<Rightarrow> 'a Doc \<Rightarrow> 'a Doc \<Rightarrow> 'a Doc list \<Rightarrow> 'a Doc" where
  "encloseSep left right sep docs =
     (case docs of
        [] \<Rightarrow> Cat left right
      | [d] \<Rightarrow> Cat left (Cat d right)
      | _ \<Rightarrow>
          (let xs = map (\<lambda>(a, b). Cat a b) (zip (left # replicate (length docs - 1) sep) docs)
           in Cat (cat xs) right))"

definition list :: "'a Doc list \<Rightarrow> 'a Doc" where
  "list docs = groupD (encloseSep (flatAlt (CharD ''[ '') lbracket) (flatAlt (CharD '' ]'') rbracket)
                        (CharD '', '') docs)"

definition tupled :: "'a Doc list \<Rightarrow> 'a Doc" where
  "tupled docs = groupD (encloseSep (flatAlt (CharD ''( '') lparen) (flatAlt (CharD '' )'') rparen)
                          (CharD '', '') docs)"

text \<open>\<open>softLine\<close>, \<open>appendWithSoftLine\<close> and \<open>fillSep\<close>, which \<open>reflow\<close> builds its document with.\<close>

definition softLine :: "'a Doc" where "softLine = UnionD (CharD '' '') Line"

definition appendWithSoftLine :: "'a Doc \<Rightarrow> 'a Doc \<Rightarrow> 'a Doc" where
  "appendWithSoftLine x y = Cat x (Cat softLine y)"

definition fillSep :: "'a Doc list \<Rightarrow> 'a Doc" where
  "fillSep = concatWith appendWithSoftLine"

section \<open>PageWidth.ts\<close>

text \<open>
  \<open>remainingWidth\<close>: the product \<open>lineLength * ribbonFraction\<close> is taken in the reals
  here and in IEEE doubles in the source; the two agree where the product is exact, as
  with the ribbon fraction 1 of the default page width.
\<close>


definition remainingWidth :: "int \<Rightarrow> real \<Rightarrow> int \<Rightarrow> int \<Rightarrow> int" where
  "remainingWidth lineLength ribbonFraction lineIndent currentColumn =
     (let columnsLeftInLine = lineLength - currentColumn;
          ribbonWidth = max 0 (min lineLength \<lfloor>of_int lineLength * ribbonFraction\<rfloor>);
          columnsLeftInRibbon = lineIndent + ribbonWidth - currentColumn
      in min columnsLeftInLine columnsLeftInRibbon)"

section \<open>Layout.ts: the layout engine\<close>

text \<open>
  A reactive node hands the engine a document computed by its producer, so the size of a
  document is no measure for the recursion of \<open>best\<close> and \<open>scan\<close>. The immediate
  sub-document relation is well-founded, and every step of the engine replaces the head
  document of its work list by finitely many immediate sub-documents.
\<close>

inductive_set subdoc :: "('a Doc \<times> 'a Doc) set" where
  "(x, FlatAlt x y) \<in> subdoc"
| "(y, FlatAlt x y) \<in> subdoc"
| "(x, Cat x y) \<in> subdoc"
| "(y, Cat x y) \<in> subdoc"
| "(x, Nest j x) \<in> subdoc"
| "(x, UnionD x y) \<in> subdoc"
| "(y, UnionD x y) \<in> subdoc"
| "(f n, Column f) \<in> subdoc"
| "(g p, WithPageWidth g) \<in> subdoc"
| "(f n, Nesting f) \<in> subdoc"
| "(x, Annotated a x) \<in> subdoc"

lemma wf_subdoc: "wf (subdoc :: ('a Doc \<times> 'a Doc) set)"
proof (rule wfUNIVI)
  fix P :: "'a Doc \<Rightarrow> bool" and x
  assume H: "\<forall>x. (\<forall>y. (y, x) \<in> subdoc \<longrightarrow> P y) \<longrightarrow> P x"
  show "P x"
    by (induction x) (rule H[rule_format], erule subdoc.cases, simp_all)+
qed

lemma mult_subdoc_drop: "(M, add_mset d M) \<in> mult subdoc"
  using one_step_implies_mult[of "{#d#}" "{#}" subdoc M] by simp

lemma mult_subdoc_one: "(x, d) \<in> subdoc \<Longrightarrow> (add_mset x M, add_mset d M) \<in> mult subdoc"
  using one_step_implies_mult[of "{#d#}" "{#x#}" subdoc M] by simp

lemma mult_subdoc_two:
  "(x, d) \<in> subdoc \<Longrightarrow> (y, d) \<in> subdoc \<Longrightarrow>
   (add_mset x (add_mset y M), add_mset d M) \<in> mult subdoc"
  using one_step_implies_mult[of "{#d#}" "{#x, y#}" subdoc M] by simp

fun pipelineDocs :: "'a LayoutPipeline \<Rightarrow> 'a Doc multiset" where
  "pipelineDocs NilP = {#}"
| "pipelineDocs (ConsP i d ds) = add_mset d (pipelineDocs ds)"
| "pipelineDocs (UndoAnn ds) = pipelineDocs ds"

fun pipelineLength :: "'a LayoutPipeline \<Rightarrow> nat" where
  "pipelineLength NilP = 0"
| "pipelineLength (ConsP i d ds) = Suc (pipelineLength ds)"
| "pipelineLength (UndoAnn ds) = Suc (pipelineLength ds)"

fun initialIndentation :: "'a SimpleDocStream \<Rightarrow> int option" where
  "initialIndentation SFail = None"
| "initialIndentation SEmpty = None"
| "initialIndentation (SChar c s) = None"
| "initialIndentation (SText t s) = None"
| "initialIndentation (SLine i s) = Some i"
| "initialIndentation (SAnnPush a s) = initialIndentation s"
| "initialIndentation (SAnnPop s) = initialIndentation s"

definition selectNicer ::
  "'a FittingPredicate \<Rightarrow> int \<Rightarrow> int \<Rightarrow> 'a SimpleDocStream \<Rightarrow> 'a SimpleDocStream \<Rightarrow> 'a SimpleDocStream" where
  "selectNicer fits lineIndent currentColumn x y =
     (if fits lineIndent currentColumn (initialIndentation y) x then x else y)"

text \<open>
  \<open>best\<close>, the local function of \<open>layoutWadlerLeijen\<close>, with the fitting predicate and
  the page width it closes over as its first two arguments. \<open>t.length\<close> is the length of
  the string.
\<close>

function best ::
  "'a FittingPredicate \<Rightarrow> PageWidth \<Rightarrow> int \<Rightarrow> int \<Rightarrow> 'a LayoutPipeline \<Rightarrow> 'a SimpleDocStream" where
  "best fits pw nl cc NilP = SEmpty"
| "best fits pw nl cc (ConsP i Fail ds) = SFail"
| "best fits pw nl cc (ConsP i Empty ds) = best fits pw nl cc ds"
| "best fits pw nl cc (ConsP i (CharD c) ds) = SChar c (best fits pw nl (cc + 1) ds)"
| "best fits pw nl cc (ConsP i (Text t) ds) = SText t (best fits pw nl (cc + int (length t)) ds)"
| "best fits pw nl cc (ConsP i Line ds) =
     (let x = best fits pw i i ds;
          i' = (case x of SEmpty \<Rightarrow> 0 | SLine j s \<Rightarrow> 0 | _ \<Rightarrow> i)
      in SLine i' x)"
| "best fits pw nl cc (ConsP i (FlatAlt x y) ds) = best fits pw nl cc (ConsP i x ds)"
| "best fits pw nl cc (ConsP i (Cat x y) ds) = best fits pw nl cc (ConsP i x (ConsP i y ds))"
| "best fits pw nl cc (ConsP i (Nest j x) ds) = best fits pw nl cc (ConsP (i + j) x ds)"
| "best fits pw nl cc (ConsP i (UnionD x y) ds) =
     selectNicer fits nl cc (best fits pw nl cc (ConsP i x ds)) (best fits pw nl cc (ConsP i y ds))"
| "best fits pw nl cc (ConsP i (Column f) ds) = best fits pw nl cc (ConsP i (f cc) ds)"
| "best fits pw nl cc (ConsP i (WithPageWidth g) ds) = best fits pw nl cc (ConsP i (g pw) ds)"
| "best fits pw nl cc (ConsP i (Nesting f) ds) = best fits pw nl cc (ConsP i (f i) ds)"
| "best fits pw nl cc (ConsP i (Annotated a x) ds) =
     SAnnPush a (best fits pw nl cc (ConsP i x (UndoAnn ds)))"
| "best fits pw nl cc (UndoAnn ds) = SAnnPop (best fits pw nl cc ds)"
  by pat_completeness auto
termination
  by (relation "inv_image (mult subdoc <*lex*> less_than)
        (\<lambda>(fits, pw, nl, cc, p). (pipelineDocs p, pipelineLength p))")
     (auto simp: wf_mult wf_subdoc
           intro!: mult_subdoc_drop mult_subdoc_one mult_subdoc_two subdoc.intros)

text \<open>
  The number of calls of \<open>best\<close> that one call of \<open>best\<close> makes, itself included.
  TypeScript evaluates the arguments of a constructor and the initialisers of \<open>const _x\<close>
  and \<open>const _y\<close> before it goes on, and the constructors of \<open>SimpleDocStream\<close> build
  plain objects, so every call that a branch of \<open>best\<close> names is made: \<open>bestCalls\<close> has
  the equations of \<open>best\<close>, each counting one for the call and adding the calls it names.
\<close>

function bestCalls ::
  "'a FittingPredicate \<Rightarrow> PageWidth \<Rightarrow> int \<Rightarrow> int \<Rightarrow> 'a LayoutPipeline \<Rightarrow> nat" where
  "bestCalls fits pw nl cc NilP = 1"
| "bestCalls fits pw nl cc (ConsP i Fail ds) = 1"
| "bestCalls fits pw nl cc (ConsP i Empty ds) = 1 + bestCalls fits pw nl cc ds"
| "bestCalls fits pw nl cc (ConsP i (CharD c) ds) = 1 + bestCalls fits pw nl (cc + 1) ds"
| "bestCalls fits pw nl cc (ConsP i (Text t) ds) =
     1 + bestCalls fits pw nl (cc + int (length t)) ds"
| "bestCalls fits pw nl cc (ConsP i Line ds) = 1 + bestCalls fits pw i i ds"
| "bestCalls fits pw nl cc (ConsP i (FlatAlt x y) ds) = 1 + bestCalls fits pw nl cc (ConsP i x ds)"
| "bestCalls fits pw nl cc (ConsP i (Cat x y) ds) =
     1 + bestCalls fits pw nl cc (ConsP i x (ConsP i y ds))"
| "bestCalls fits pw nl cc (ConsP i (Nest j x) ds) =
     1 + bestCalls fits pw nl cc (ConsP (i + j) x ds)"
| "bestCalls fits pw nl cc (ConsP i (UnionD x y) ds) =
     1 + bestCalls fits pw nl cc (ConsP i x ds) + bestCalls fits pw nl cc (ConsP i y ds)"
| "bestCalls fits pw nl cc (ConsP i (Column f) ds) =
     1 + bestCalls fits pw nl cc (ConsP i (f cc) ds)"
| "bestCalls fits pw nl cc (ConsP i (WithPageWidth g) ds) =
     1 + bestCalls fits pw nl cc (ConsP i (g pw) ds)"
| "bestCalls fits pw nl cc (ConsP i (Nesting f) ds) =
     1 + bestCalls fits pw nl cc (ConsP i (f i) ds)"
| "bestCalls fits pw nl cc (ConsP i (Annotated a x) ds) =
     1 + bestCalls fits pw nl cc (ConsP i x (UndoAnn ds))"
| "bestCalls fits pw nl cc (UndoAnn ds) = 1 + bestCalls fits pw nl cc ds"
  by pat_completeness auto
termination
  by (relation "inv_image (mult subdoc <*lex*> less_than)
        (\<lambda>(fits, pw, nl, cc, p). (pipelineDocs p, pipelineLength p))")
     (auto simp: wf_mult wf_subdoc
           intro!: mult_subdoc_drop mult_subdoc_one mult_subdoc_two subdoc.intros)

definition layoutWadlerLeijen :: "'a FittingPredicate \<Rightarrow> PageWidth \<Rightarrow> 'a Doc \<Rightarrow> 'a SimpleDocStream" where
  "layoutWadlerLeijen fits pageWidth doc = best fits pageWidth 0 0 (ConsP 0 doc NilP)"

fun failsOnFirstLine :: "'a SimpleDocStream \<Rightarrow> bool" where
  "failsOnFirstLine SFail = True"
| "failsOnFirstLine SEmpty = False"
| "failsOnFirstLine (SChar c s) = failsOnFirstLine s"
| "failsOnFirstLine (SText t s) = failsOnFirstLine s"
| "failsOnFirstLine (SLine i s) = False"
| "failsOnFirstLine (SAnnPush a s) = failsOnFirstLine s"
| "failsOnFirstLine (SAnnPop s) = failsOnFirstLine s"

definition layoutUnbounded :: "'a Doc \<Rightarrow> 'a SimpleDocStream" where
  "layoutUnbounded = layoutWadlerLeijen (\<lambda>_ _ _ sds. \<not> failsOnFirstLine sds) Unbounded"

text \<open>The local function \<open>fits\<close> of \<open>layoutPretty\<close>.\<close>

fun layoutPretty_fits :: "int \<Rightarrow> 'a SimpleDocStream \<Rightarrow> bool" where
  "layoutPretty_fits width SFail = (if width < 0 then False else False)"
| "layoutPretty_fits width SEmpty = (if width < 0 then False else True)"
| "layoutPretty_fits width (SChar c x) =
     (if width < 0 then False else layoutPretty_fits (width - 1) x)"
| "layoutPretty_fits width (SText t x) =
     (if width < 0 then False else layoutPretty_fits (width - int (length t)) x)"
| "layoutPretty_fits width (SLine i x) = (if width < 0 then False else True)"
| "layoutPretty_fits width (SAnnPush a x) =
     (if width < 0 then False else layoutPretty_fits width x)"
| "layoutPretty_fits width (SAnnPop x) =
     (if width < 0 then False else layoutPretty_fits width x)"

definition layoutPretty :: "'a Doc \<Rightarrow> PageWidth \<Rightarrow> 'a SimpleDocStream" where
  "layoutPretty doc pageWidth =
     (case pageWidth of
        AvailablePerLine lw rfrac \<Rightarrow>
          layoutWadlerLeijen
            (\<lambda>nl cc _ sds. layoutPretty_fits (remainingWidth lw rfrac nl cc) sds) pageWidth doc
      | Unbounded \<Rightarrow> layoutUnbounded doc)"

text \<open>
  \<open>layoutSmart\<close> of the Layout module whose destructors are called \<open>match\<close>: the local
  function \<open>go\<close>, with the \<open>lineWidth\<close> and \<open>minNestingLevel\<close> it closes over as its
  first two arguments, the local function \<open>fits\<close>, and the entry point.
\<close>

fun layoutSmart_go :: "int \<Rightarrow> int \<Rightarrow> int \<Rightarrow> 'a SimpleDocStream \<Rightarrow> bool" where
  "layoutSmart_go lineWidth minNestingLevel width SFail = (if width < 0 then False else False)"
| "layoutSmart_go lineWidth minNestingLevel width SEmpty = (if width < 0 then False else True)"
| "layoutSmart_go lineWidth minNestingLevel width (SChar c x) =
     (if width < 0 then False else layoutSmart_go lineWidth minNestingLevel (width - 1) x)"
| "layoutSmart_go lineWidth minNestingLevel width (SText t x) =
     (if width < 0 then False
      else layoutSmart_go lineWidth minNestingLevel (width - int (length t)) x)"
| "layoutSmart_go lineWidth minNestingLevel width (SLine i x) =
     (if width < 0 then False
      else if minNestingLevel < i then layoutSmart_go lineWidth minNestingLevel (i - lineWidth) x
      else True)"
| "layoutSmart_go lineWidth minNestingLevel width (SAnnPush a x) =
     (if width < 0 then False else layoutSmart_go lineWidth minNestingLevel width x)"
| "layoutSmart_go lineWidth minNestingLevel width (SAnnPop x) =
     (if width < 0 then False else layoutSmart_go lineWidth minNestingLevel width x)"

definition layoutSmart_fits :: "int \<Rightarrow> real \<Rightarrow> 'a FittingPredicate" where
  "layoutSmart_fits lineWidth ribbonFraction lineIndent currentColumn initialIndentY stream =
     (let availableWidth = remainingWidth lineWidth ribbonFraction lineIndent currentColumn;
          minNestingLevel = (case initialIndentY of
                               None \<Rightarrow> currentColumn
                             | Some i \<Rightarrow> min i currentColumn)
      in layoutSmart_go lineWidth minNestingLevel availableWidth stream)"

definition layoutSmart :: "'a Doc \<Rightarrow> PageWidth \<Rightarrow> 'a SimpleDocStream" where
  "layoutSmart doc pageWidth =
     (case pageWidth of
        AvailablePerLine lineWidth ribbonFraction \<Rightarrow>
          layoutWadlerLeijen (layoutSmart_fits lineWidth ribbonFraction) pageWidth doc
      | Unbounded \<Rightarrow> layoutUnbounded doc)"

text \<open>
  \<open>layoutSmart\<close> of the Layout module whose destructors are called \<open>fold\<close>. It differs
  from the one above in the \<open>SLine\<close> branch of \<open>go\<close> only.
\<close>

fun layoutSmart_go_fold :: "int \<Rightarrow> int \<Rightarrow> int \<Rightarrow> 'a SimpleDocStream \<Rightarrow> bool" where
  "layoutSmart_go_fold lw minNestingLevel w SFail = (if w < 0 then False else False)"
| "layoutSmart_go_fold lw minNestingLevel w SEmpty = (if w < 0 then False else True)"
| "layoutSmart_go_fold lw minNestingLevel w (SChar c x) =
     (if w < 0 then False else layoutSmart_go_fold lw minNestingLevel (w - 1) x)"
| "layoutSmart_go_fold lw minNestingLevel w (SText t x) =
     (if w < 0 then False else layoutSmart_go_fold lw minNestingLevel (w - int (length t)) x)"
| "layoutSmart_go_fold lw minNestingLevel w (SLine i x) =
     (if w < 0 then False
      else if minNestingLevel < i then layoutSmart_go_fold lw minNestingLevel (lw - i) x
      else True)"
| "layoutSmart_go_fold lw minNestingLevel w (SAnnPush a x) =
     (if w < 0 then False else layoutSmart_go_fold lw minNestingLevel w x)"
| "layoutSmart_go_fold lw minNestingLevel w (SAnnPop x) =
     (if w < 0 then False else layoutSmart_go_fold lw minNestingLevel w x)"

definition layoutSmart_fits_fold :: "int \<Rightarrow> real \<Rightarrow> 'a FittingPredicate" where
  "layoutSmart_fits_fold lw rfrac nl cc iy stream =
     (let availableWidth = remainingWidth lw rfrac nl cc;
          minNestingLevel = (case iy of None \<Rightarrow> cc | Some i \<Rightarrow> min i cc)
      in layoutSmart_go_fold lw minNestingLevel availableWidth stream)"

definition layoutSmart_fold :: "'a Doc \<Rightarrow> PageWidth \<Rightarrow> 'a SimpleDocStream" where
  "layoutSmart_fold doc pageWidth =
     (case pageWidth of
        AvailablePerLine lw rfrac \<Rightarrow>
          layoutWadlerLeijen (layoutSmart_fits_fold lw rfrac) pageWidth doc
      | Unbounded \<Rightarrow> layoutUnbounded doc)"

text \<open>
  \<open>layoutCompact\<close>: \<open>scan\<close> works on an array of documents; \<open>RA.cons\<close> puts a document
  in front of it. The annotation type of the result is free.
\<close>

function scan :: "int \<Rightarrow> 'a Doc list \<Rightarrow> 'b SimpleDocStream" where
  "scan col [] = SEmpty"
| "scan col (Fail # ds) = SFail"
| "scan col (Empty # ds) = scan col ds"
| "scan col (CharD c # ds) = SChar c (scan (col + 1) ds)"
| "scan col (Text t # ds) = SText t (scan (col + int (length t)) ds)"
| "scan col (FlatAlt x y # ds) = scan col (x # ds)"
| "scan col (Line # ds) = SLine 0 (scan 0 ds)"
| "scan col (Cat x y # ds) = scan col (x # y # ds)"
| "scan col (Nest j x # ds) = scan col (x # ds)"
| "scan col (UnionD x y # ds) = scan col (y # ds)"
| "scan col (Column f # ds) = scan col (f col # ds)"
| "scan col (WithPageWidth g # ds) = scan col (g Unbounded # ds)"
| "scan col (Nesting f # ds) = scan col (f 0 # ds)"
| "scan col (Annotated a x # ds) = scan col (x # ds)"
  by pat_completeness auto
termination
  by (relation "inv_image (mult subdoc) (\<lambda>(col, ds). mset ds)")
     (auto simp: wf_mult wf_subdoc
           intro!: mult_subdoc_drop mult_subdoc_one mult_subdoc_two subdoc.intros)

definition layoutCompact :: "'a Doc \<Rightarrow> 'b SimpleDocStream" where
  "layoutCompact doc = scan 0 [doc]"

section \<open>Render.ts\<close>

text \<open>
  \<open>renderS\<close> calls \<open>absurd\<close> of fp-ts on \<open>SFail\<close>, which throws. The exception is the
  left summand of the result. The array handed to \<open>foldS\<close> is built left to right, so the
  exception of a successor passes through every node before it. \<open>RA.replicate(i, ' ')\<close>
  is empty for \<open>i \<le> 0\<close>.
\<close>

datatype error = AbsurdCalled

fun renderS :: "'a SimpleDocStream \<Rightarrow> error + string" where
  "renderS SFail = Inl AbsurdCalled"
| "renderS SEmpty = Inr []"
| "renderS (SChar c x) = (case renderS x of Inl e \<Rightarrow> Inl e | Inr r \<Rightarrow> Inr (c @ r))"
| "renderS (SText t x) = (case renderS x of Inl e \<Rightarrow> Inl e | Inr r \<Rightarrow> Inr (t @ r))"
| "renderS (SLine i x) =
     (case renderS x of
        Inl e \<Rightarrow> Inl e
      | Inr r \<Rightarrow> Inr ((CHR 0x0A # replicate (nat i) CHR '' '') @ r))"
| "renderS (SAnnPush a x) = renderS x"
| "renderS (SAnnPop x) = renderS x"

section \<open>Properties of streams and documents\<close>

text \<open>
  The number of \<open>UndoAnn\<close> markers of a pipeline: the annotations that are open while
  the engine works on it.
\<close>

fun undoAnns :: "'a LayoutPipeline \<Rightarrow> nat" where
  "undoAnns NilP = 0"
| "undoAnns (ConsP i d ds) = undoAnns ds"
| "undoAnns (UndoAnn ds) = Suc (undoAnns ds)"

text \<open>
  \<open>annBalanced k s\<close>: read from a point where \<open>k\<close> annotations are open, every \<open>SAnnPop\<close>
  of \<open>s\<close> closes an open annotation and none is open where the chain ends, be it in
  \<open>SEmpty\<close> or in \<open>SFail\<close>.
\<close>

fun annBalanced :: "nat \<Rightarrow> 'a SimpleDocStream \<Rightarrow> bool" where
  "annBalanced k SFail = (k = 0)"
| "annBalanced k SEmpty = (k = 0)"
| "annBalanced k (SChar c s) = annBalanced k s"
| "annBalanced k (SText t s) = annBalanced k s"
| "annBalanced k (SLine i s) = annBalanced k s"
| "annBalanced k (SAnnPush a s) = annBalanced (Suc k) s"
| "annBalanced 0 (SAnnPop s) = False"
| "annBalanced (Suc k) (SAnnPop s) = annBalanced k s"

text \<open>
  \<open>annBalancedUnlessFail k s\<close>: the same, but a chain that ends in \<open>SFail\<close> may leave
  annotations open.
\<close>

fun annBalancedUnlessFail :: "nat \<Rightarrow> 'a SimpleDocStream \<Rightarrow> bool" where
  "annBalancedUnlessFail k SFail = True"
| "annBalancedUnlessFail k SEmpty = (k = 0)"
| "annBalancedUnlessFail k (SChar c s) = annBalancedUnlessFail k s"
| "annBalancedUnlessFail k (SText t s) = annBalancedUnlessFail k s"
| "annBalancedUnlessFail k (SLine i s) = annBalancedUnlessFail k s"
| "annBalancedUnlessFail k (SAnnPush a s) = annBalancedUnlessFail (Suc k) s"
| "annBalancedUnlessFail 0 (SAnnPop s) = False"
| "annBalancedUnlessFail (Suc k) (SAnnPop s) = annBalancedUnlessFail k s"

text \<open>The number of nodes of a stream, its last node \<open>SEmpty\<close> or \<open>SFail\<close> included.\<close>

fun streamNodes :: "'a SimpleDocStream \<Rightarrow> nat" where
  "streamNodes SFail = 1"
| "streamNodes SEmpty = 1"
| "streamNodes (SChar c s) = Suc (streamNodes s)"
| "streamNodes (SText t s) = Suc (streamNodes s)"
| "streamNodes (SLine i s) = Suc (streamNodes s)"
| "streamNodes (SAnnPush a s) = Suc (streamNodes s)"
| "streamNodes (SAnnPop s) = Suc (streamNodes s)"

text \<open>
  \<open>discardedSpared\<close>: the expansion of \<open>Union x y\<close> in front of the pipeline \<open>ds\<close> makes
  fewer calls of \<open>best\<close> than laying out both alternatives in full does, so that a part
  of the alternative that \<open>selectNicer\<close> discards is never computed.
\<close>

definition discardedSpared ::
  "'a FittingPredicate \<Rightarrow> PageWidth \<Rightarrow> int \<Rightarrow> int \<Rightarrow> int \<Rightarrow> 'a Doc \<Rightarrow> 'a Doc \<Rightarrow> 'a LayoutPipeline \<Rightarrow> bool" where
  "discardedSpared fits pw nl cc i x y ds =
     (bestCalls fits pw nl cc (ConsP i (UnionD x y) ds)
        < 1 + bestCalls fits pw nl cc (ConsP i x ds) + bestCalls fits pw nl cc (ConsP i y ds))"

text \<open>Every \<open>SLine\<close> has indentation 0 and there is no \<open>SAnnPush\<close> and no \<open>SAnnPop\<close>.\<close>

fun noIndentNoAnn :: "'a SimpleDocStream \<Rightarrow> bool" where
  "noIndentNoAnn SFail = True"
| "noIndentNoAnn SEmpty = True"
| "noIndentNoAnn (SChar c s) = noIndentNoAnn s"
| "noIndentNoAnn (SText t s) = noIndentNoAnn s"
| "noIndentNoAnn (SLine i s) = (i = 0 \<and> noIndentNoAnn s)"
| "noIndentNoAnn (SAnnPush a s) = False"
| "noIndentNoAnn (SAnnPop s) = False"

text \<open>
  The invariants that Doc.ts documents for \<open>Char\<close> (a single character, not the newline)
  and \<open>Text\<close> (at least two characters, no newline), on every node of a document.
\<close>

primrec charTextInvariant :: "'a Doc \<Rightarrow> bool" where
  "charTextInvariant Fail = True"
| "charTextInvariant Empty = True"
| "charTextInvariant (CharD c) = (length c = 1 \<and> c \<noteq> [CHR 0x0A])"
| "charTextInvariant (Text t) = (2 \<le> length t \<and> CHR 0x0A \<notin> set t)"
| "charTextInvariant Line = True"
| "charTextInvariant (FlatAlt x y) = (charTextInvariant x \<and> charTextInvariant y)"
| "charTextInvariant (Cat x y) = (charTextInvariant x \<and> charTextInvariant y)"
| "charTextInvariant (Nest i x) = charTextInvariant x"
| "charTextInvariant (UnionD x y) = (charTextInvariant x \<and> charTextInvariant y)"
| "charTextInvariant (Column f) = (\<forall>n. charTextInvariant (f n))"
| "charTextInvariant (WithPageWidth g) = (\<forall>p. charTextInvariant (g p))"
| "charTextInvariant (Nesting f) = (\<forall>n. charTextInvariant (f n))"
| "charTextInvariant (Annotated a x) = charTextInvariant x"

text \<open>
  The successor chain of a stream, the text that one node contributes to the rendering,
  and the rendering as the specification words it: the concatenation, left to right, of
  the contributions of the nodes.
\<close>

fun successorChain :: "'a SimpleDocStream \<Rightarrow> 'a SimpleDocStream list" where
  "successorChain SFail = [SFail]"
| "successorChain SEmpty = [SEmpty]"
| "successorChain (SChar c s) = SChar c s # successorChain s"
| "successorChain (SText t s) = SText t s # successorChain s"
| "successorChain (SLine i s) = SLine i s # successorChain s"
| "successorChain (SAnnPush a s) = SAnnPush a s # successorChain s"
| "successorChain (SAnnPop s) = SAnnPop s # successorChain s"

fun nodeText :: "'a SimpleDocStream \<Rightarrow> string" where
  "nodeText (SChar c s) = c"
| "nodeText (SText t s) = t"
| "nodeText (SLine i s) = CHR 0x0A # replicate (nat i) CHR '' ''"
| "nodeText s = []"

definition renderedText :: "'a SimpleDocStream \<Rightarrow> string" where
  "renderedText s = concat (map nodeText (successorChain s))"

fun containsSFail :: "'a SimpleDocStream \<Rightarrow> bool" where
  "containsSFail SFail = True"
| "containsSFail SEmpty = False"
| "containsSFail (SChar c s) = containsSFail s"
| "containsSFail (SText t s) = containsSFail s"
| "containsSFail (SLine i s) = containsSFail s"
| "containsSFail (SAnnPush a s) = containsSFail s"
| "containsSFail (SAnnPop s) = containsSFail s"

section \<open>Flattening\<close>

text \<open>
  C9. Flattening is idempotent: for every document \<open>d\<close>, \<open>flatten (flatten d)\<close> is the
  same document as \<open>flatten d\<close>. Producers of reactive nodes are compared pointwise.
\<close>

theorem flatten_idempotent: "flatten (flatten d) = flatten d"
  by (induction d) (simp_all add: fun_eq_iff)

text \<open>
  C2. On a reactive node \<open>changesUponFlattening\<close> answers \<open>Flattened\<close> with the producer
  composed with \<open>flatten\<close>. For \<open>Column\<close> and \<open>WithPageWidth\<close> the node keeps its
  constructor; for \<open>Nesting f\<close> the code wraps the producer in \<open>Column\<close>, so the result is
  not the \<open>Nesting\<close> node that the property asks for. The flat alternative that \<open>group\<close>
  builds from it hands the producer the current column where it expects the nesting
  level: a document that reads its nesting level 4 is laid out with the answer for 0 once
  it is grouped.
\<close>

theorem changesUponFlattening_reactive:
  "changesUponFlattening (Column f) = Flattened (Column (flatten \<circ> f)) \<and>
   changesUponFlattening (WithPageWidth g) = Flattened (WithPageWidth (flatten \<circ> g)) \<and>
   changesUponFlattening (Nesting f) = Flattened (Column (flatten \<circ> f)) \<and>
   changesUponFlattening (Nesting f) \<noteq> Flattened (Nesting (flatten \<circ> f)) \<and>
   layoutPretty (Nest 4 (Nesting (\<lambda>l. if l = 4 then Text ''four'' else Text ''other'')))
     (AvailablePerLine 80 1) = SText ''four'' (SEmpty :: unit SimpleDocStream) \<and>
   layoutPretty (Nest 4 (groupD (Nesting (\<lambda>l. if l = 4 then Text ''four'' else Text ''other''))))
     (AvailablePerLine 80 1) = SText ''other'' (SEmpty :: unit SimpleDocStream)"
  by (simp add: layoutPretty_def layoutWadlerLeijen_def groupD_def group_'_def selectNicer_def
        remainingWidth_def)

lemma AlreadyFlat_flatten: "changesUponFlattening d = AlreadyFlat \<Longrightarrow> flatten d = d"
proof (induction d)
  case (Cat x y)
  then show ?case
    by (cases "changesUponFlattening x"; cases "changesUponFlattening y") simp_all
next
  case (Nest i x)
  then show ?case by (cases "changesUponFlattening x") simp_all
next
  case (Annotated a x)
  then show ?case by (cases "changesUponFlattening x") simp_all
qed simp_all

text \<open>
  C6. For every document \<open>doc\<close> with \<open>changesUponFlattening doc = AlreadyFlat\<close>,
  \<open>layoutUnbounded doc\<close> and \<open>layoutUnbounded (flatten doc)\<close> are the same stream.
\<close>

theorem layoutUnbounded_flatten:
  "changesUponFlattening doc = AlreadyFlat \<Longrightarrow>
   layoutUnbounded doc = layoutUnbounded (flatten doc)"
  by (simp add: AlreadyFlat_flatten)

theorem layoutUnbounded_flatten_witness:
  "changesUponFlattening (Cat (CharD ''a'') (Nest 2 (Annotated () (Text ''bc'')))) = AlreadyFlat \<and>
   layoutUnbounded (Cat (CharD ''a'') (Nest 2 (Annotated () (Text ''bc'')))) =
   layoutUnbounded (flatten (Cat (CharD ''a'') (Nest 2 (Annotated () (Text ''bc'')))))"
proof -
  have h: "changesUponFlattening (Cat (CharD ''a'') (Nest 2 (Annotated () (Text ''bc'')))) =
           AlreadyFlat"
    by simp
  from h layoutUnbounded_flatten[OF h] show ?thesis by blast
qed

section \<open>group\<close>

text \<open>
  C4. \<open>group\<close> on \<open>FlatAlt a b\<close> consults \<open>changesUponFlattening b\<close>: \<open>Flattened b'\<close> gives
  \<open>Union b' a\<close>, \<open>AlreadyFlat\<close> gives \<open>Union b a\<close>, \<open>NeverFlat\<close> gives \<open>a\<close>. A \<open>Union\<close> is
  returned unchanged. Every other document \<open>d\<close> becomes \<open>Union d' d\<close> when
  \<open>changesUponFlattening d = Flattened d'\<close> and stays \<open>d\<close> when the analysis answers
  \<open>AlreadyFlat\<close> or \<open>NeverFlat\<close>.
\<close>

theorem groupD_cases:
  "(changesUponFlattening b = Flattened b' \<longrightarrow> groupD (FlatAlt a b) = UnionD b' a) \<and>
   (changesUponFlattening b = AlreadyFlat \<longrightarrow> groupD (FlatAlt a b) = UnionD b a) \<and>
   (changesUponFlattening b = NeverFlat \<longrightarrow> groupD (FlatAlt a b) = a) \<and>
   groupD (UnionD x y) = UnionD x y \<and>
   ((\<forall>p q. d \<noteq> FlatAlt p q) \<and> (\<forall>p q. d \<noteq> UnionD p q) \<and>
    changesUponFlattening d = Flattened d' \<longrightarrow> groupD d = UnionD d' d) \<and>
   ((\<forall>p q. d \<noteq> FlatAlt p q) \<and> (\<forall>p q. d \<noteq> UnionD p q) \<and>
    (changesUponFlattening d = AlreadyFlat \<or> changesUponFlattening d = NeverFlat) \<longrightarrow>
    groupD d = d)"
  by (cases d) (auto simp: groupD_def group_'_def)

theorem groupD_cases_witness:
  "groupD (FlatAlt (Text ''xy'') (FlatAlt Line Empty)) = UnionD Empty (Text ''xy'' :: unit Doc) \<and>
   groupD (FlatAlt Line (CharD '' '')) = UnionD (CharD '' '') (Line :: unit Doc) \<and>
   groupD (FlatAlt (CharD ''a'') Line) = (CharD ''a'' :: unit Doc) \<and>
   groupD (Cat (CharD ''a'') (FlatAlt Line (CharD '' ''))) =
     UnionD (Cat (CharD ''a'') (CharD '' ''))
            (Cat (CharD ''a'') (FlatAlt Line (CharD '' '')) :: unit Doc) \<and>
   groupD (Text ''ab'') = (Text ''ab'' :: unit Doc) \<and>
   groupD Line = (Line :: unit Doc)"
proof -
  let ?e = "Empty :: unit Doc"
  have flatAlt_Flattened:
    "groupD (FlatAlt (Text ''xy'') (FlatAlt Line Empty)) = UnionD Empty (Text ''xy'' :: unit Doc)"
    using groupD_cases[where b = "FlatAlt Line ?e" and b' = ?e and a = "Text ''xy'' :: unit Doc"
                         and x = ?e and y = ?e and d = ?e and d' = ?e]
    by simp
  have flatAlt_AlreadyFlat:
    "groupD (FlatAlt Line (CharD '' '')) = UnionD (CharD '' '') (Line :: unit Doc)"
    using groupD_cases[where b = "CharD '' '' :: unit Doc" and b' = ?e and a = "Line :: unit Doc"
                         and x = ?e and y = ?e and d = ?e and d' = ?e]
    by simp
  have flatAlt_NeverFlat: "groupD (FlatAlt (CharD ''a'') Line) = (CharD ''a'' :: unit Doc)"
    using groupD_cases[where b = "Line :: unit Doc" and b' = ?e and a = "CharD ''a'' :: unit Doc"
                         and x = ?e and y = ?e and d = ?e and d' = ?e]
    by simp
  have other_Flattened:
    "groupD (Cat (CharD ''a'') (FlatAlt Line (CharD '' ''))) =
       UnionD (Cat (CharD ''a'') (CharD '' ''))
              (Cat (CharD ''a'') (FlatAlt Line (CharD '' '')) :: unit Doc)"
    using groupD_cases[where d = "Cat (CharD ''a'') (FlatAlt Line (CharD '' '')) :: unit Doc"
                         and d' = "Cat (CharD ''a'') (CharD '' '') :: unit Doc"
                         and b = ?e and b' = ?e and a = ?e and x = ?e and y = ?e]
    by simp
  have other_AlreadyFlat: "groupD (Text ''ab'') = (Text ''ab'' :: unit Doc)"
    using groupD_cases[where d = "Text ''ab'' :: unit Doc" and d' = ?e
                         and b = ?e and b' = ?e and a = ?e and x = ?e and y = ?e]
    by simp
  have other_NeverFlat: "groupD Line = (Line :: unit Doc)"
    using groupD_cases[where d = "Line :: unit Doc" and d' = ?e
                         and b = ?e and b' = ?e and a = ?e and x = ?e and y = ?e]
    by simp
  from flatAlt_Flattened flatAlt_AlreadyFlat flatAlt_NeverFlat
       other_Flattened other_AlreadyFlat other_NeverFlat
  show ?thesis by blast
qed

section \<open>The layout algorithms\<close>

lemma best_annBalancedUnlessFail:
  "annBalancedUnlessFail (undoAnns p) (best fits pw nl cc p)"
  by (induction fits pw nl cc p rule: best.induct) (simp_all add: selectNicer_def Let_def)

lemma layoutWadlerLeijen_annBalancedUnlessFail:
  "annBalancedUnlessFail 0 (layoutWadlerLeijen fits pw doc)"
  using best_annBalancedUnlessFail[of "ConsP 0 doc NilP" fits pw 0 0]
  by (simp add: layoutWadlerLeijen_def)

lemma scan_noIndentNoAnn: "noIndentNoAnn (scan col ds)"
  by (induction col ds rule: scan.induct) simp_all

lemma noIndentNoAnn_annBalancedUnlessFail: "noIndentNoAnn s \<Longrightarrow> annBalancedUnlessFail 0 s"
  by (induction s) simp_all

text \<open>
  C5, as the code has it. For every document and every page width, in the stream of each
  layout entry point (\<open>layoutUnbounded\<close>, \<open>layoutPretty\<close>, both \<open>layoutSmart\<close>,
  \<open>layoutCompact\<close>) every \<open>SAnnPop\<close> matches an earlier unmatched \<open>SAnnPush\<close>, and no
  \<open>SAnnPush\<close> is left unclosed when the chain ends in \<open>SEmpty\<close>. A chain that ends in
  \<open>SFail\<close> is cut off there and may leave annotations open.
\<close>

theorem layout_annotations_balanced:
  "annBalancedUnlessFail 0 (layoutUnbounded doc) \<and>
   annBalancedUnlessFail 0 (layoutPretty doc pageWidth) \<and>
   annBalancedUnlessFail 0 (layoutSmart doc pageWidth) \<and>
   annBalancedUnlessFail 0 (layoutSmart_fold doc pageWidth) \<and>
   annBalancedUnlessFail 0 (layoutCompact doc :: 'b SimpleDocStream)"
proof -
  have u: "annBalancedUnlessFail 0 (layoutUnbounded d)" for d :: "'a Doc"
    unfolding layoutUnbounded_def by (rule layoutWadlerLeijen_annBalancedUnlessFail)
  have p: "annBalancedUnlessFail 0 (layoutPretty doc pageWidth)"
    by (cases pageWidth)
       (simp_all add: layoutPretty_def u layoutWadlerLeijen_annBalancedUnlessFail)
  have s1: "annBalancedUnlessFail 0 (layoutSmart doc pageWidth)"
    by (cases pageWidth)
       (simp_all add: layoutSmart_def u layoutWadlerLeijen_annBalancedUnlessFail)
  have s2: "annBalancedUnlessFail 0 (layoutSmart_fold doc pageWidth)"
    by (cases pageWidth)
       (simp_all add: layoutSmart_fold_def u layoutWadlerLeijen_annBalancedUnlessFail)
  have c: "annBalancedUnlessFail 0 (layoutCompact doc :: 'b SimpleDocStream)"
    unfolding layoutCompact_def
    by (rule noIndentNoAnn_annBalancedUnlessFail) (rule scan_noIndentNoAnn)
  from u p s1 s2 c show ?thesis by blast
qed

text \<open>
  The property as first stated, with no annotation open wherever the chain ends, fails on
  an annotated document that fails: the stream is \<open>SAnnPush\<close> followed by \<open>SFail\<close>.
\<close>

theorem layout_annotations_counterexample:
  "layoutUnbounded (Annotated () Fail) = SAnnPush () SFail \<and>
   \<not> annBalanced 0 (layoutUnbounded (Annotated () Fail)) \<and>
   \<not> annBalanced 0 (layoutPretty (Annotated () Fail) (AvailablePerLine 80 1)) \<and>
   \<not> annBalanced 0 (layoutSmart (Annotated () Fail) (AvailablePerLine 80 1)) \<and>
   \<not> annBalanced 0 (layoutSmart_fold (Annotated () Fail) (AvailablePerLine 80 1))"
  by (simp add: layoutUnbounded_def layoutPretty_def layoutSmart_def layoutSmart_fold_def
        layoutWadlerLeijen_def)

lemma streamNodes_bestCalls: "streamNodes (best fits pw nl cc p) \<le> bestCalls fits pw nl cc p"
  by (induction fits pw nl cc p rule: best.induct) (simp_all add: selectNicer_def Let_def)

lemma bestCalls_pos: "0 < bestCalls fits pw nl cc p"
  by (induction fits pw nl cc p rule: bestCalls.induct) simp_all

lemma bestCalls_appendWithSoftLine:
  "bestCalls fits pw nl cc (ConsP i (appendWithSoftLine (Text w) r) ds) =
     6 + bestCalls fits pw nl (cc + int (length w) + 1) (ConsP i r ds)
       + bestCalls fits pw i i (ConsP i r ds)"
  by (simp add: appendWithSoftLine_def softLine_def)

lemma bestCalls_foldr_softLine:
  "2 ^ length ws \<le>
   bestCalls fits pw nl cc (ConsP i (foldr appendWithSoftLine (map Text ws) z) ds)"
proof (induction ws arbitrary: nl cc)
  case Nil
  show ?case using bestCalls_pos[of fits pw nl cc "ConsP i z ds"] by simp
next
  case (Cons w ws)
  let ?r = "foldr appendWithSoftLine (map Text ws) z"
  have a: "2 ^ length ws \<le> bestCalls fits pw nl (cc + int (length w) + 1) (ConsP i ?r ds)"
    by (rule Cons.IH)
  have b: "2 ^ length ws \<le> bestCalls fits pw i i (ConsP i ?r ds)"
    by (rule Cons.IH)
  have "foldr appendWithSoftLine (map Text (w # ws)) z = appendWithSoftLine (Text w) ?r"
    by simp
  with a b show ?case
    by (simp only: bestCalls_appendWithSoftLine length_Cons power_Suc)
qed

lemma bestCalls_fillSep:
  "2 ^ (length ws - 1) \<le> bestCalls fits pw nl cc (ConsP i (fillSep (map Text ws)) ds)"
proof (cases "ws = []")
  case True
  then show ?thesis
    using bestCalls_pos[of fits pw nl cc "ConsP i Empty ds"]
    by (simp add: fillSep_def concatWith_def)
next
  case False
  then have "fillSep (map Text ws) =
      foldr appendWithSoftLine (map Text (butlast ws)) (Text (last ws) :: 'a Doc)"
    by (simp add: fillSep_def concatWith_def map_butlast last_map)
  then show ?thesis
    using bestCalls_foldr_softLine[of "butlast ws" fits pw nl cc i "Text (last ws)" ds]
    by simp
qed

text \<open>
  C3, as the code has it. When the layout engine expands a \<open>Union\<close> node, for any
  fitting predicate and page width (so for \<open>layoutUnbounded\<close>, \<open>layoutPretty\<close> and
  \<open>layoutSmart\<close>), it lays out both alternatives in full before \<open>selectNicer\<close> chooses: the
  result is the alternative that \<open>selectNicer\<close> picks, the calls of \<open>best\<close> are those of
  both alternatives and one more, and they outnumber the nodes of both streams together.
  Nothing of the discarded alternative is spared, and the document that \<open>fillSep\<close> builds
  from \<open>n + 1\<close> words, with its \<open>n\<close> soft lines, costs at least \<open>2 ^ n\<close> calls.
\<close>

theorem union_both_alternatives:
  "best fits pw nl cc (ConsP i (UnionD x y) ds) =
     selectNicer fits nl cc (best fits pw nl cc (ConsP i x ds)) (best fits pw nl cc (ConsP i y ds)) \<and>
   bestCalls fits pw nl cc (ConsP i (UnionD x y) ds) =
     1 + bestCalls fits pw nl cc (ConsP i x ds) + bestCalls fits pw nl cc (ConsP i y ds) \<and>
   streamNodes (best fits pw nl cc (ConsP i x ds)) + streamNodes (best fits pw nl cc (ConsP i y ds))
     < bestCalls fits pw nl cc (ConsP i (UnionD x y) ds) \<and>
   2 ^ (length ws - 1) \<le> bestCalls fits pw nl cc (ConsP i (fillSep (map Text ws)) ds)"
proof -
  have "streamNodes (best fits pw nl cc (ConsP i x ds)) \<le> bestCalls fits pw nl cc (ConsP i x ds)"
       "streamNodes (best fits pw nl cc (ConsP i y ds)) \<le> bestCalls fits pw nl cc (ConsP i y ds)"
    by (rule streamNodes_bestCalls)+
  then show ?thesis
    using bestCalls_fillSep[of ws fits pw nl cc i ds] by simp
qed

text \<open>
  The property as first stated, with the unexamined tail of the discarded alternative
  never computed, fails under \<open>layoutUnbounded\<close> on a \<open>Union\<close> of one character and three:
  the first alternative is chosen, \<open>initialIndentation\<close> looks at the first node of the
  second only, and yet all six calls that lay out the second alternative are made. Ten
  soft lines in a row cost at least 1024 calls.
\<close>

theorem union_lazy_counterexample:
  "layoutUnbounded (UnionD (CharD ''a'') (Cat (CharD ''b'') (Cat (CharD ''c'') (CharD ''d'')))) =
     SChar ''a'' (SEmpty :: unit SimpleDocStream) \<and>
   best (\<lambda>_ _ _ sds. \<not> failsOnFirstLine sds) Unbounded 0 0
        (ConsP 0 (Cat (CharD ''b'') (Cat (CharD ''c'') (CharD ''d''))) NilP) =
     SChar ''b'' (SChar ''c'' (SChar ''d'' (SEmpty :: unit SimpleDocStream))) \<and>
   bestCalls (\<lambda>_ _ _ sds. \<not> failsOnFirstLine sds) Unbounded 0 0
        (ConsP 0 (Cat (CharD ''b'') (Cat (CharD ''c'') (CharD ''d''))) (NilP :: unit LayoutPipeline)) = 6 \<and>
   bestCalls (\<lambda>_ _ _ sds. \<not> failsOnFirstLine sds) Unbounded 0 0
        (ConsP 0 (UnionD (CharD ''a'') (Cat (CharD ''b'') (Cat (CharD ''c'') (CharD ''d''))))
           (NilP :: unit LayoutPipeline)) = 9 \<and>
   \<not> discardedSpared (\<lambda>_ _ _ sds. \<not> failsOnFirstLine sds) Unbounded 0 0 0
        (CharD ''a'') (Cat (CharD ''b'') (Cat (CharD ''c'') (CharD ''d''))) (NilP :: unit LayoutPipeline) \<and>
   1024 \<le> bestCalls (\<lambda>_ _ _ sds. \<not> failsOnFirstLine sds) Unbounded 0 0
        (ConsP 0 (fillSep (map Text (replicate 11 ''ab''))) (NilP :: unit LayoutPipeline))"
proof -
  have "(2::nat) ^ (length (replicate 11 ''ab'') - 1) \<le>
        bestCalls (\<lambda>_ _ _ sds. \<not> failsOnFirstLine sds) Unbounded 0 0
          (ConsP 0 (fillSep (map Text (replicate 11 ''ab''))) (NilP :: unit LayoutPipeline))"
    by (rule bestCalls_fillSep)
  then have big: "1024 \<le> bestCalls (\<lambda>_ _ _ sds. \<not> failsOnFirstLine sds) Unbounded 0 0
        (ConsP 0 (fillSep (map Text (replicate 11 ''ab''))) (NilP :: unit LayoutPipeline))"
    by simp
  show ?thesis
    using big
    by (simp add: layoutUnbounded_def layoutWadlerLeijen_def selectNicer_def discardedSpared_def)
qed

text \<open>
  C7. For every document \<open>doc\<close>, every \<open>SLine\<close> of \<open>layoutCompact doc\<close> has indentation 0,
  and the stream has no \<open>SAnnPush\<close> and no \<open>SAnnPop\<close>.
\<close>

theorem layoutCompact_noIndentNoAnn: "noIndentNoAnn (layoutCompact doc :: 'b SimpleDocStream)"
  unfolding layoutCompact_def by (rule scan_noIndentNoAnn)

lemma layoutSmart_go_SLine:
  "0 \<le> width \<Longrightarrow> minNestingLevel < i \<Longrightarrow>
   layoutSmart_go lineWidth minNestingLevel width (SLine i r) =
   layoutSmart_go lineWidth minNestingLevel (i - lineWidth) r"
  by simp

lemma layoutSmart_go_fold_SLine:
  "0 \<le> w \<Longrightarrow> minNestingLevel < i \<Longrightarrow>
   layoutSmart_go_fold lw minNestingLevel w (SLine i r) =
   layoutSmart_go_fold lw minNestingLevel (lw - i) r"
  by simp

text \<open>
  C1. In the fitness recursion of \<open>layoutSmart\<close> under \<open>AvailablePerLine lw rf\<close>, a node
  \<open>SLine i r\<close> reached with \<open>minNestingLevel < i\<close> is to continue on \<open>r\<close> with the width
  \<open>lw - i\<close>. The Layout module with the \<open>fold\<close> destructors does so. The Layout module with
  the \<open>match\<close> destructors continues with \<open>i - lineWidth\<close>: with line width 10, a line at
  indentation 4 that holds two characters is refused, and the layout of a document that
  fits the page on two lines takes three.
\<close>

theorem layoutSmart_line_width:
  "layoutSmart_go 10 0 5 (SLine 4 (SText ''ef'' (SEmpty :: unit SimpleDocStream))) =
     layoutSmart_go 10 0 (4 - 10) (SText ''ef'' (SEmpty :: unit SimpleDocStream)) \<and>
   layoutSmart_go 10 0 5 (SLine 4 (SText ''ef'' (SEmpty :: unit SimpleDocStream))) = False \<and>
   layoutSmart_go_fold 10 0 5 (SLine 4 (SText ''ef'' (SEmpty :: unit SimpleDocStream))) = True \<and>
   layoutSmart
     (Cat (Text ''ab'')
        (Cat (UnionD (CharD '' '') Line) (Cat (Text ''cd'') (Nest 4 (Cat Line (Text ''ef''))))))
     (AvailablePerLine 10 1) =
     SText ''ab'' (SLine 0 (SText ''cd'' (SLine 4 (SText ''ef'' (SEmpty :: unit SimpleDocStream))))) \<and>
   layoutSmart_fold
     (Cat (Text ''ab'')
        (Cat (UnionD (CharD '' '') Line) (Cat (Text ''cd'') (Nest 4 (Cat Line (Text ''ef''))))))
     (AvailablePerLine 10 1) =
     SText ''ab'' (SChar '' '' (SText ''cd'' (SLine 4 (SText ''ef'' (SEmpty :: unit SimpleDocStream)))))"
  by (simp add: layoutSmart_def layoutSmart_fold_def layoutWadlerLeijen_def selectNicer_def
        layoutSmart_fits_def layoutSmart_fits_fold_def remainingWidth_def)

section \<open>list and tupled\<close>

lemma encloseSep_right:
  "\<not> charTextInvariant right \<Longrightarrow> \<not> charTextInvariant (encloseSep left right sep docs)"
  by (simp add: encloseSep_def split: list.splits)

lemma encloseSep_Cat: "\<exists>x y. encloseSep left right sep docs = Cat x y"
  by (simp add: encloseSep_def split: list.splits)

lemma groupD_Cat_invariant:
  "\<not> charTextInvariant (Cat x y) \<Longrightarrow> \<not> charTextInvariant (groupD (Cat x y))"
  by (simp add: groupD_def group_'_def split: FlattenResult.splits)

lemma groupD_encloseSep_invariant:
  assumes "\<not> charTextInvariant right"
  shows "\<not> charTextInvariant (groupD (encloseSep left right sep docs))"
proof -
  obtain x y where c: "encloseSep left right sep docs = Cat x y"
    using encloseSep_Cat by blast
  from assms have "\<not> charTextInvariant (encloseSep left right sep docs)"
    by (rule encloseSep_right)
  with c show ?thesis
    using groupD_Cat_invariant[of x y] by simp
qed

text \<open>
  C8. Every \<open>Char\<close> node that \<open>list\<close> and \<open>tupled\<close> build is to hold exactly one
  character that is not the newline, and every \<open>Text\<close> node at least two characters and
  no newline. The code builds the brackets and the separator with \<open>Char\<close> on strings of
  two characters, so the document of the empty array, and with it the document of every
  array, breaks the invariant of \<open>Char\<close>.
\<close>

theorem list_tupled_Char_invariant:
  "list ([] :: unit Doc list) =
     UnionD (Cat (CharD ''['') (CharD '']''))
            (Cat (FlatAlt (CharD ''[ '') (CharD ''['')) (FlatAlt (CharD '' ]'') (CharD '']''))) \<and>
   tupled ([] :: unit Doc list) =
     UnionD (Cat (CharD ''('') (CharD '')''))
            (Cat (FlatAlt (CharD ''( '') (CharD ''('')) (FlatAlt (CharD '' )'') (CharD '')''))) \<and>
   \<not> charTextInvariant (list docs) \<and>
   \<not> charTextInvariant (tupled docs)"
proof -
  have l: "list ([] :: unit Doc list) =
     UnionD (Cat (CharD ''['') (CharD '']''))
            (Cat (FlatAlt (CharD ''[ '') (CharD ''['')) (FlatAlt (CharD '' ]'') (CharD '']'')))"
    by (simp add: list_def encloseSep_def flatAlt_def lbracket_def rbracket_def
          groupD_def group_'_def)
  have t: "tupled ([] :: unit Doc list) =
     UnionD (Cat (CharD ''('') (CharD '')''))
            (Cat (FlatAlt (CharD ''( '') (CharD ''('')) (FlatAlt (CharD '' )'') (CharD '')'')))"
    by (simp add: tupled_def encloseSep_def flatAlt_def lparen_def rparen_def
          groupD_def group_'_def)
  have il: "\<not> charTextInvariant (list docs)"
    unfolding list_def by (rule groupD_encloseSep_invariant) (simp add: flatAlt_def)
  have it: "\<not> charTextInvariant (tupled docs)"
    unfolding tupled_def by (rule groupD_encloseSep_invariant) (simp add: flatAlt_def)
  from l t il it show ?thesis by blast
qed

section \<open>renderS\<close>

lemma containsSFail_chain: "containsSFail s = (SFail \<in> set (successorChain s))"
  by (induction s) auto

lemma renderS_error: "(renderS s = Inl AbsurdCalled) = containsSFail s"
  by (induction s) (auto split: sum.splits)

lemma renderS_text: "\<not> containsSFail s \<Longrightarrow> renderS s = Inr (renderedText s)"
  by (induction s) (simp_all add: renderedText_def)

text \<open>
  C10. \<open>renderS\<close> raises its error if and only if the successor chain of the stream
  contains an \<open>SFail\<close> node. On a stream without \<open>SFail\<close> it returns the concatenation,
  left to right, of the character of each \<open>SChar\<close>, the text of each \<open>SText\<close>, a newline
  followed by \<open>i\<close> spaces for each \<open>SLine i\<close>, and nothing for \<open>SAnnPush\<close> and \<open>SAnnPop\<close>.
\<close>

theorem renderS_spec:
  "((\<exists>e. renderS s = Inl e) = (SFail \<in> set (successorChain s))) \<and>
   (SFail \<notin> set (successorChain s) \<longrightarrow> renderS s = Inr (renderedText s))"
proof -
  have "(\<exists>e. renderS s = Inl e) = (renderS s = Inl AbsurdCalled)"
    by (metis error.exhaust)
  then show ?thesis
    by (simp add: renderS_error renderS_text containsSFail_chain[symmetric])
qed

theorem renderS_spec_witness:
  "SFail \<notin> set (successorChain (SChar ''a'' (SLine 2 (SAnnPush () (SText ''bc'' (SAnnPop SEmpty)))))) \<and>
   renderS (SChar ''a'' (SLine 2 (SAnnPush () (SText ''bc'' (SAnnPop SEmpty))))) =
     Inr [CHR ''a'', CHR 0x0A, CHR '' '', CHR '' '', CHR ''b'', CHR ''c''] \<and>
   (\<exists>e. renderS (SChar ''a'' (SLine 2 (SFail :: unit SimpleDocStream))) = Inl e)"
  using renderS_spec[of "SChar ''a'' (SLine 2 (SAnnPush () (SText ''bc'' (SAnnPop SEmpty))))"]
        renderS_spec[of "SChar ''a'' (SLine 2 (SFail :: unit SimpleDocStream))"]
  by (simp add: renderedText_def numeral_2_eq_2)

end
